theory Spec2Isabelle
  imports Main "HOL-Library.Sublist"
begin

section \<open>Python values\<close>

text \<open>
  The adapters of \<^verbatim>\<open>integrations.py\<close> receive dictionaries annotated
  \<^verbatim>\<open>Dict[str, Any]\<close>. The values that can sit in them are modelled by \<open>pyval\<close>; a
  dictionary nested in a value is an association list in insertion order, read with
  \<open>map_of\<close>. Strings are \<open>string\<close>.
\<close>

datatype pyval =
    PNone
  | PBool bool
  | PInt int
  | PStr string
  | PList "pyval list"
  | PDict "(string \<times> pyval) list"

text \<open>Python's truth test, as used by \<^verbatim>\<open>if x\<close> and \<^verbatim>\<open>not x\<close>.\<close>

fun truthy :: "pyval \<Rightarrow> bool" where
  "truthy PNone = False"
| "truthy (PBool b) = b"
| "truthy (PInt i) = (i \<noteq> 0)"
| "truthy (PStr s) = (s \<noteq> [])"
| "truthy (PList xs) = (xs \<noteq> [])"
| "truthy (PDict d) = (d \<noteq> [])"

text \<open>\<^verbatim>\<open>d.get(k, default)\<close> on a dictionary.\<close>

definition dict_get :: "('k \<rightharpoonup> 'v) \<Rightarrow> 'k \<Rightarrow> 'v \<Rightarrow> 'v" where
  "dict_get d k dflt = (case d k of None \<Rightarrow> dflt | Some v \<Rightarrow> v)"

text \<open>
  What a call can raise: a failure of the backend client (network, credentials), which the
  adapters let through unchanged, and Python's own \<^verbatim>\<open>KeyError\<close> (subscript with a
  missing key) and \<^verbatim>\<open>TypeError\<close> (\<^verbatim>\<open>str.join\<close> on a non-string item).
\<close>

datatype error = BackendError | KeyError string | TypeError

text \<open>\<^verbatim>\<open>d[k]\<close> on a message dictionary \<^verbatim>\<open>Dict[str, str]\<close>.\<close>

type_synonym message = "(string \<times> string) list"

definition getitem :: "message \<Rightarrow> string \<Rightarrow> error + string" where
  "getitem d k = (case map_of d k of None \<Rightarrow> Inl (KeyError k) | Some v \<Rightarrow> Inr v)"

text \<open>The line feed of \<^verbatim>\<open>"\n"\<close>.\<close>

definition newline :: string where
  "newline = [CHR 0x0A]"

text \<open>\<^verbatim>\<open>sep.join(items)\<close> on strings.\<close>

fun join :: "string \<Rightarrow> string list \<Rightarrow> string" where
  "join sep [] = []"
| "join sep [x] = x"
| "join sep (x # y # ys) = x @ sep @ join sep (y # ys)"

text \<open>
  \<^verbatim>\<open>str.join\<close> accepts only strings: the items of a list of values are taken out of
  their \<open>PStr\<close>, and any other item raises \<^verbatim>\<open>TypeError\<close>.
\<close>

fun str_items :: "pyval list \<Rightarrow> error + string list" where
  "str_items [] = Inr []"
| "str_items (PStr s # vs) =
     (case str_items vs of Inl e \<Rightarrow> Inl e | Inr ss \<Rightarrow> Inr (s # ss))"
| "str_items (_ # vs) = Inl TypeError"

text \<open>
  \<^verbatim>\<open>s.lower()\<close>: the letters \<open>A\<close> to \<open>Z\<close> (codes 65 to 90) move to \<open>a\<close> to
  \<open>z\<close>, every other character stays. This is Python's \<^verbatim>\<open>lower\<close> on ASCII text.
\<close>

definition lower_char :: "char \<Rightarrow> char" where
  "lower_char c =
     (let n = (of_char c :: nat) in if 65 \<le> n \<and> n \<le> 90 then char_of (n + 32) else c)"

definition lower :: "string \<Rightarrow> string" where
  "lower s = map lower_char s"

section \<open>The backend client\<close>

text \<open>
  \<^verbatim>\<open>Memphora\<close> is imported from \<^verbatim>\<open>memphora_sdk\<close>; the adapters only call it. Every
  call an adapter makes is recorded, in order, in the call history of its client.
\<close>

datatype call =
    GetContext pyval int
  | StoreConversation pyval pyval
  | StoreAgentMemory string string "(string \<times> pyval) list"
  | SearchAgentMemories string string int
  | Search string int

text \<open>
  The client is a parameter: for each method, what it answers to the given arguments after
  the given history of calls, either a value (\<open>Inr\<close>) or a raised error (\<open>Inl\<close>). The
  value of the two store methods is never looked at by the adapters modelled here. A search
  answers with a dictionary whose entries are lists, the facts under \<^verbatim>\<open>"facts"\<close>.
\<close>

type_synonym search_result = "string \<rightharpoonup> pyval list"

record Memphora =
  memphora_get_context :: "call list \<Rightarrow> pyval \<Rightarrow> int \<Rightarrow> error + string"
  memphora_store_conversation :: "call list \<Rightarrow> pyval \<Rightarrow> pyval \<Rightarrow> error + unit"
  memphora_store_agent_memory ::
    "call list \<Rightarrow> string \<Rightarrow> string \<Rightarrow> (string \<times> pyval) list \<Rightarrow> error + unit"
  memphora_search_agent_memories :: "call list \<Rightarrow> string \<Rightarrow> string \<Rightarrow> int \<Rightarrow> error + search_result"
  memphora_search :: "call list \<Rightarrow> string \<Rightarrow> int \<Rightarrow> error + search_result"

text \<open>A call returns the client's answer and the history extended by the call.\<close>

definition call_get_context ::
  "Memphora \<Rightarrow> call list \<Rightarrow> pyval \<Rightarrow> int \<Rightarrow> (error + string) \<times> call list" where
  "call_get_context M h query limit = (memphora_get_context M h query limit, h @ [GetContext query limit])"

definition call_store_conversation ::
  "Memphora \<Rightarrow> call list \<Rightarrow> pyval \<Rightarrow> pyval \<Rightarrow> (error + unit) \<times> call list" where
  "call_store_conversation M h human ai =
     (memphora_store_conversation M h human ai, h @ [StoreConversation human ai])"

definition call_store_agent_memory ::
  "Memphora \<Rightarrow> call list \<Rightarrow> string \<Rightarrow> string \<Rightarrow> (string \<times> pyval) list
     \<Rightarrow> (error + unit) \<times> call list" where
  "call_store_agent_memory M h agent_id content metadata =
     (memphora_store_agent_memory M h agent_id content metadata,
      h @ [StoreAgentMemory agent_id content metadata])"

definition call_search_agent_memories ::
  "Memphora \<Rightarrow> call list \<Rightarrow> string \<Rightarrow> string \<Rightarrow> int \<Rightarrow> (error + search_result) \<times> call list" where
  "call_search_agent_memories M h agent_id query limit =
     (memphora_search_agent_memories M h agent_id query limit,
      h @ [SearchAgentMemories agent_id query limit])"

definition call_search ::
  "Memphora \<Rightarrow> call list \<Rightarrow> string \<Rightarrow> int \<Rightarrow> (error + search_result) \<times> call list" where
  "call_search M h query limit = (memphora_search M h query limit, h @ [Search query limit])"

section \<open>LangChain integration\<close>

text \<open>
  The attributes of a \<^verbatim>\<open>MemphoraLangChain\<close> object; \<open>lc_calls\<close> is the call history
  of \<^verbatim>\<open>self.memphora\<close>.
\<close>

record MemphoraLangChain =
  lc_calls :: "call list"
  lc_session_id :: string
  memory_key :: string
  input_key :: string
  output_key :: string
  return_messages :: bool
  human_prefix :: string
  ai_prefix :: string

text \<open>\<^verbatim>\<open>_format_as_messages\<close>\<close>

definition format_as_messages :: "string \<Rightarrow> pyval list" where
  "format_as_messages context =
     (if context = [] then []
      else [PDict [(''role'', PStr ''system''),
                   (''content'', PStr (''Relevant context:'' @ newline @ context))]])"

text \<open>\<^verbatim>\<open>load_memory_variables\<close>: the returned dictionary (or the error raised) and the object after the call.\<close>

definition load_memory_variables ::
  "Memphora \<Rightarrow> MemphoraLangChain \<Rightarrow> (string \<rightharpoonup> pyval)
     \<Rightarrow> (error + (string \<rightharpoonup> pyval)) \<times> MemphoraLangChain" where
  "load_memory_variables M self inputs =
     (let query = dict_get inputs (input_key self) (PStr []) in
      if \<not> truthy query then
        (Inr [memory_key self \<mapsto> (if return_messages self then PList [] else PStr [])], self)
      else
        (case call_get_context M (lc_calls self) query 10 of
           (Inl e, h) \<Rightarrow> (Inl e, self\<lparr>lc_calls := h\<rparr>)
         | (Inr context, h) \<Rightarrow>
             if return_messages self then
               (Inr [memory_key self \<mapsto> PList (format_as_messages context)], self\<lparr>lc_calls := h\<rparr>)
             else
               (Inr [memory_key self \<mapsto> PStr context], self\<lparr>lc_calls := h\<rparr>)))"

text \<open>\<^verbatim>\<open>save_context\<close>\<close>

definition save_context ::
  "Memphora \<Rightarrow> MemphoraLangChain \<Rightarrow> (string \<rightharpoonup> pyval) \<Rightarrow> (string \<rightharpoonup> pyval)
     \<Rightarrow> (error + unit) \<times> MemphoraLangChain" where
  "save_context M self inputs outputs =
     (let human_input = dict_get inputs (input_key self) (PStr []);
          ai_output = dict_get outputs (output_key self) (PStr [])
      in if truthy human_input \<and> truthy ai_output then
           (case call_store_conversation M (lc_calls self) human_input ai_output of
              (r, h) \<Rightarrow> (r, self\<lparr>lc_calls := h\<rparr>))
         else (Inr (), self))"

section \<open>LlamaIndex integration\<close>

text \<open>
  The attributes of a \<^verbatim>\<open>MemphoraLlamaIndex\<close> object; \<open>li_calls\<close> is the call history
  of \<^verbatim>\<open>self.memphora\<close>, \<open>chat_history\<close> is \<^verbatim>\<open>self._chat_history\<close>.
\<close>

record MemphoraLlamaIndex =
  li_calls :: "call list"
  token_limit :: int
  chat_history :: "message list"

text \<open>\<^verbatim>\<open>put\<close>: an error of the store call leaves before the two appends.\<close>

definition put ::
  "Memphora \<Rightarrow> MemphoraLlamaIndex \<Rightarrow> string \<Rightarrow> string \<Rightarrow> (error + unit) \<times> MemphoraLlamaIndex" where
  "put M self user_message assistant_message =
     (case call_store_conversation M (li_calls self) (PStr user_message) (PStr assistant_message) of
        (Inl e, h) \<Rightarrow> (Inl e, self\<lparr>li_calls := h\<rparr>)
      | (Inr _, h) \<Rightarrow>
          (Inr (),
           self\<lparr>li_calls := h,
                chat_history := chat_history self
                  @ [[(''role'', ''user''), (''content'', user_message)]]
                  @ [[(''role'', ''assistant''), (''content'', assistant_message)]]\<rparr>))"

text \<open>
  The loop of \<^verbatim>\<open>set\<close>, \<^verbatim>\<open>for i in range(0, len(messages) - 1, 2)\<close>, from index \<open>i\<close>
  on. The two role tests short-circuit; the two contents are read only for a pair that is
  stored.
\<close>

function set_loop :: "Memphora \<Rightarrow> message list \<Rightarrow> nat \<Rightarrow> call list \<Rightarrow> (error + unit) \<times> call list" where
  "set_loop M messages i h =
     (if int i < int (length messages) - 1 then
        (case getitem (messages ! i) ''role'' of
           Inl e \<Rightarrow> (Inl e, h)
         | Inr r1 \<Rightarrow>
             if r1 = ''user'' then
               (case getitem (messages ! (i + 1)) ''role'' of
                  Inl e \<Rightarrow> (Inl e, h)
                | Inr r2 \<Rightarrow>
                    if r2 = ''assistant'' then
                      (case getitem (messages ! i) ''content'' of
                         Inl e \<Rightarrow> (Inl e, h)
                       | Inr c1 \<Rightarrow>
                           (case getitem (messages ! (i + 1)) ''content'' of
                              Inl e \<Rightarrow> (Inl e, h)
                            | Inr c2 \<Rightarrow>
                                (case call_store_conversation M h (PStr c1) (PStr c2) of
                                   (Inl e, h') \<Rightarrow> (Inl e, h')
                                 | (Inr _, h') \<Rightarrow> set_loop M messages (i + 2) h')))
                    else set_loop M messages (i + 2) h)
             else set_loop M messages (i + 2) h)
      else (Inr (), h))"
  by pat_completeness auto
termination
  by (relation "measure (\<lambda>(M, messages, i, h). length messages - i)") auto

declare set_loop.simps [simp del]

text \<open>\<^verbatim>\<open>set\<close>: the buffer is replaced before the loop runs.\<close>

definition set_messages ::
  "Memphora \<Rightarrow> MemphoraLlamaIndex \<Rightarrow> message list \<Rightarrow> (error + unit) \<times> MemphoraLlamaIndex" where
  "set_messages M self messages =
     (let self1 = self\<lparr>chat_history := messages\<rparr> in
      case set_loop M messages 0 (li_calls self1) of
        (r, h) \<Rightarrow> (r, self1\<lparr>li_calls := h\<rparr>))"

section \<open>CrewAI integration\<close>

text \<open>
  A \<^verbatim>\<open>MemphoraAgentMemory\<close> object holds its agent and crew identifiers (its
  \<^verbatim>\<open>memphora\<close> attribute is the crew's one client). Which object a handle is matters, so
  the objects live in a store: \<open>handles\<close> lists the objects constructed so far, and the
  reference to an object is its position there. \<open>agent_memories\<close> is the dictionary
  \<^verbatim>\<open>self._agent_memories\<close>, from agent identifiers to references.
\<close>

record MemphoraAgentMemory =
  am_agent_id :: string
  am_crew_id :: string

record MemphoraCrewAI =
  crew_id :: string
  agent_memories :: "string \<rightharpoonup> nat"
  handles :: "MemphoraAgentMemory list"

text \<open>\<^verbatim>\<open>for_agent\<close>: the reference returned and the object after the call.\<close>

definition for_agent :: "MemphoraCrewAI \<Rightarrow> string \<Rightarrow> (error + nat) \<times> MemphoraCrewAI" where
  "for_agent self agent_id =
     (let self1 =
        (if agent_memories self agent_id = None then
           self\<lparr>handles := handles self @ [\<lparr>am_agent_id = agent_id, am_crew_id = crew_id self\<rparr>],
                agent_memories := (agent_memories self)(agent_id \<mapsto> length (handles self))\<rparr>
         else self)
      in case agent_memories self1 agent_id of
           None \<Rightarrow> (Inl (KeyError agent_id), self1)
         | Some r \<Rightarrow> (Inr r, self1))"

text \<open>The object after \<^verbatim>\<open>for_agent\<close> has been called for each identifier of a list, in order.\<close>

fun for_agents :: "MemphoraCrewAI \<Rightarrow> string list \<Rightarrow> MemphoraCrewAI" where
  "for_agents self [] = self"
| "for_agents self (a # as) = for_agents (snd (for_agent self a)) as"

section \<open>AutoGen integration\<close>

text \<open>
  The attributes of a \<^verbatim>\<open>MemphoraAutoGen\<close> object; \<open>ag_calls\<close> is the call history of
  \<^verbatim>\<open>self.memphora\<close>, \<open>message_buffer\<close> is \<^verbatim>\<open>self._message_buffer\<close>.
\<close>

record MemphoraAutoGen =
  ag_calls :: "call list"
  ag_session_id :: string
  track_escalations :: bool
  message_buffer :: "message list"

definition escalation_keywords :: "string list" where
  "escalation_keywords = [''escalate'', ''human'', ''supervisor'', ''help needed'']"

text \<open>
  \<^verbatim>\<open>_on_message\<close>, with the content, sender and receiver strings of its signature.
  \<^verbatim>\<open>kw in text\<close> on strings is \<open>sublist kw text\<close>.
\<close>

definition on_message ::
  "Memphora \<Rightarrow> MemphoraAutoGen \<Rightarrow> string \<Rightarrow> string \<Rightarrow> string \<Rightarrow> (error + unit) \<times> MemphoraAutoGen" where
  "on_message M self content sender receiver =
     (if content = [] then (Inr (), self)
      else
        (let self1 = self\<lparr>message_buffer := message_buffer self
                       @ [[(''content'', content), (''sender'', sender), (''receiver'', receiver)]]\<rparr>
         in case call_store_agent_memory M (ag_calls self1) sender content
                   [(''receiver'', PStr receiver),
                    (''session_id'', PStr (ag_session_id self1)),
                    (''type'', PStr ''message'')] of
              (Inl e, h) \<Rightarrow> (Inl e, self1\<lparr>ag_calls := h\<rparr>)
            | (Inr _, h) \<Rightarrow>
                (let self2 = self1\<lparr>ag_calls := h\<rparr> in
                 if track_escalations self2 then
                   if list_ex (\<lambda>kw. sublist kw (lower content)) escalation_keywords then
                     (case call_store_agent_memory M (ag_calls self2) sender
                             (''ESCALATION: '' @ content)
                             [(''type'', PStr ''escalation''),
                              (''session_id'', PStr (ag_session_id self2)),
                              (''from_agent'', PStr sender),
                              (''to_agent'', PStr receiver)] of
                        (Inl e, h') \<Rightarrow> (Inl e, self2\<lparr>ag_calls := h'\<rparr>)
                      | (Inr _, h') \<Rightarrow> (Inr (), self2\<lparr>ag_calls := h'\<rparr>))
                   else (Inr (), self2)
                 else (Inr (), self2))))"

text \<open>
  One line of \<^verbatim>\<open>get_context\<close>: \<^verbatim>\<open>fact.get("text", "")\<close> for a dictionary,
  \<^verbatim>\<open>str(fact)\<close> otherwise. \<^verbatim>\<open>str\<close> of a string is the string; what Python's \<^verbatim>\<open>str\<close>
  prints for a value of another type is the parameter \<open>str_of\<close>.
\<close>

fun context_line :: "(pyval \<Rightarrow> string) \<Rightarrow> pyval \<Rightarrow> pyval" where
  "context_line str_of (PDict d) = (case map_of d ''text'' of None \<Rightarrow> PStr [] | Some v \<Rightarrow> v)"
| "context_line str_of (PStr s) = PStr s"
| "context_line str_of v = PStr (str_of v)"

text \<open>
  \<^verbatim>\<open>get_context\<close>; \<^verbatim>\<open>if agent_id\<close> holds for an identifier that is given and not the
  empty string.
\<close>

definition get_context ::
  "(pyval \<Rightarrow> string) \<Rightarrow> Memphora \<Rightarrow> MemphoraAutoGen \<Rightarrow> string \<Rightarrow> string option \<Rightarrow> int
     \<Rightarrow> (error + string) \<times> MemphoraAutoGen" where
  "get_context str_of M self query agent_id limit =
     (case (case agent_id of
              Some a \<Rightarrow>
                if a \<noteq> [] then call_search_agent_memories M (ag_calls self) a query limit
                else call_search M (ag_calls self) query limit
            | None \<Rightarrow> call_search M (ag_calls self) query limit) of
        (Inl e, h) \<Rightarrow> (Inl e, self\<lparr>ag_calls := h\<rparr>)
      | (Inr result, h) \<Rightarrow>
          (let facts = dict_get result ''facts'' [] in
           if facts = [] then (Inr [], self\<lparr>ag_calls := h\<rparr>)
           else
             (case str_items (map (context_line str_of) facts) of
                Inl e \<Rightarrow> (Inl e, self\<lparr>ag_calls := h\<rparr>)
              | Inr context_lines \<Rightarrow> (Inr (join newline context_lines), self\<lparr>ag_calls := h\<rparr>))))"

section \<open>Constructors and a sample client\<close>

text \<open>The \<^verbatim>\<open>__init__\<close> methods, with the defaults of their signatures.\<close>

definition langchain_init :: "string \<Rightarrow> string option \<Rightarrow> bool \<Rightarrow> MemphoraLangChain" where
  "langchain_init user_id session_id as_messages =
     \<lparr>lc_calls = [],
      lc_session_id = (case session_id of None \<Rightarrow> user_id | Some s \<Rightarrow> if s \<noteq> [] then s else user_id),
      memory_key = ''history'', input_key = ''input'', output_key = ''output'',
      return_messages = as_messages, human_prefix = ''Human'', ai_prefix = ''AI''\<rparr>"

definition llamaindex_init :: MemphoraLlamaIndex where
  "llamaindex_init = \<lparr>li_calls = [], token_limit = 3000, chat_history = []\<rparr>"

definition crewai_init :: "string \<Rightarrow> MemphoraCrewAI" where
  "crewai_init cid = \<lparr>crew_id = cid, agent_memories = Map.empty, handles = []\<rparr>"

definition autogen_init :: "string \<Rightarrow> bool \<Rightarrow> MemphoraAutoGen" where
  "autogen_init sid track =
     \<lparr>ag_calls = [], ag_session_id = sid, track_escalations = track, message_buffer = []\<rparr>"

text \<open>
  A client that never raises: it answers every context query with the given text and every
  search with the given result.
\<close>

definition answering :: "string \<Rightarrow> search_result \<Rightarrow> Memphora" where
  "answering context result =
     \<lparr>memphora_get_context = (\<lambda>h query limit. Inr context),
      memphora_store_conversation = (\<lambda>h human ai. Inr ()),
      memphora_store_agent_memory = (\<lambda>h agent_id content metadata. Inr ()),
      memphora_search_agent_memories = (\<lambda>h agent_id query limit. Inr result),
      memphora_search = (\<lambda>h query limit. Inr result)\<rparr>"

section \<open>Notions of the specification\<close>

text \<open>
  A value is present and non-empty under a key: the key is there and its value passes the
  truth test (a string passes it when it is not the empty string).
\<close>

definition present_nonempty :: "(string \<rightharpoonup> pyval) \<Rightarrow> string \<Rightarrow> bool" where
  "present_nonempty d k = (case d k of None \<Rightarrow> False | Some v \<Rightarrow> truthy v)"

text \<open>The adjacent pairs of a sequence, at positions \<open>(0, 1)\<close>, \<open>(2, 3)\<close>, and so on.\<close>

fun adjacent_pairs :: "'a list \<Rightarrow> ('a \<times> 'a) list" where
  "adjacent_pairs (x # y # zs) = (x, y) # adjacent_pairs zs"
| "adjacent_pairs _ = []"

text \<open>The role and the content of a chat message.\<close>

definition role_of :: "message \<Rightarrow> string" where
  "role_of m = dict_get (map_of m) ''role'' []"

definition content_of :: "message \<Rightarrow> string" where
  "content_of m = dict_get (map_of m) ''content'' []"

text \<open>A pair of messages is a turn: a user message followed by an assistant message.\<close>

definition is_turn :: "message \<times> message \<Rightarrow> bool" where
  "is_turn p = (role_of (fst p) = ''user'' \<and> role_of (snd p) = ''assistant'')"

definition stored_turn :: "message \<times> message \<Rightarrow> call" where
  "stored_turn p = StoreConversation (PStr (content_of (fst p))) (PStr (content_of (snd p)))"

text \<open>
  The rendering of a fact: the \<^verbatim>\<open>"text"\<close> field of a mapping (the empty string when the
  mapping has none), the string form of anything else.
\<close>

fun fact_text :: "(pyval \<Rightarrow> string) \<Rightarrow> pyval \<Rightarrow> string" where
  "fact_text str_of (PDict d) = (case map_of d ''text'' of Some (PStr t) \<Rightarrow> t | _ \<Rightarrow> [])"
| "fact_text str_of (PStr s) = s"
| "fact_text str_of v = str_of v"

text \<open>The \<^verbatim>\<open>"text"\<close> field of a fact that is a mapping, when it has one, is a string.\<close>

fun text_is_string :: "pyval \<Rightarrow> bool" where
  "text_is_string (PDict d) = (case map_of d ''text'' of Some (PStr t) \<Rightarrow> True | None \<Rightarrow> True | _ \<Rightarrow> False)"
| "text_is_string _ = True"

section \<open>Auxiliary facts\<close>

lemma present_nonempty_string:
  "d k = Some (PStr s) \<Longrightarrow> present_nonempty d k \<longleftrightarrow> s \<noteq> []"
  by (simp add: present_nonempty_def)

lemma getitem_role: "map_of m ''role'' \<noteq> None \<Longrightarrow> getitem m ''role'' = Inr (role_of m)"
  by (auto simp: getitem_def role_of_def dict_get_def)

lemma getitem_content: "map_of m ''content'' \<noteq> None \<Longrightarrow> getitem m ''content'' = Inr (content_of m)"
  by (auto simp: getitem_def content_of_def dict_get_def)

lemma adjacent_pairs_short: "length xs \<le> 1 \<Longrightarrow> adjacent_pairs xs = []"
  by (cases xs rule: adjacent_pairs.cases) auto

lemma drop_two: "i + 1 < length xs \<Longrightarrow> drop i xs = xs ! i # xs ! (i + 1) # drop (i + 2) xs"
  by (simp add: Cons_nth_drop_Suc)

text \<open>The pairs of \<open>adjacent_pairs\<close> are those at the positions \<open>(2i, 2i+1)\<close>.\<close>

lemma adjacent_pairs_nth:
  "adjacent_pairs xs = map (\<lambda>i. (xs ! (2 * i), xs ! (2 * i + 1))) [0..<length xs div 2]"
proof (induction xs rule: adjacent_pairs.induct)
  case (1 x y zs)
  have "[0..<Suc (length zs div 2)] = 0 # map Suc [0..<length zs div 2]"
    by (simp add: upt_conv_Cons map_Suc_upt del: upt_Suc)
  then show ?case using 1 by (simp add: comp_def del: upt_Suc)
qed auto

text \<open>
  The loop of \<^verbatim>\<open>set\<close>, started at index \<open>i\<close>, stores the turns among the adjacent pairs
  of the messages from \<open>i\<close> on, when every message has a role and a content and the store
  calls return.
\<close>

lemma set_loop_stores:
  "\<forall>m\<in>set messages. map_of m ''role'' \<noteq> None \<and> map_of m ''content'' \<noteq> None \<Longrightarrow>
   \<forall>h human ai. memphora_store_conversation M h human ai = Inr () \<Longrightarrow>
   set_loop M messages i h =
     (Inr (), h @ map stored_turn (filter is_turn (adjacent_pairs (drop i messages))))"
proof (induction M messages i h rule: set_loop.induct)
  case (1 M messages i h)
  show ?case
  proof (cases "int i < int (length messages) - 1")
    case False
    then have "length (drop i messages) \<le> 1" by simp
    then have "adjacent_pairs (drop i messages) = []" by (rule adjacent_pairs_short)
    with False show ?thesis by (subst set_loop.simps) simp
  next
    case True
    then have lt: "i + 1 < length messages" by simp
    let ?u = "messages ! i" and ?a = "messages ! Suc i"
    have "?u \<in> set messages" and "?a \<in> set messages" using lt by simp_all
    with "1.prems"(1) have keys:
      "getitem ?u ''role'' = Inr (role_of ?u)" "getitem ?u ''content'' = Inr (content_of ?u)"
      "getitem ?a ''role'' = Inr (role_of ?a)" "getitem ?a ''content'' = Inr (content_of ?a)"
      by (simp_all add: getitem_role getitem_content)
    have dr: "drop i messages = ?u # ?a # drop (Suc (Suc i)) messages"
      using drop_two [OF lt] by simp
    have turn: "is_turn (?u, ?a) \<longleftrightarrow> role_of ?u = ''user'' \<and> role_of ?a = ''assistant''"
      by (simp add: is_turn_def)
    have stored:
      "stored_turn (?u, ?a) = StoreConversation (PStr (content_of ?u)) (PStr (content_of ?a))"
      by (simp add: stored_turn_def)
    show ?thesis
      using "1.IH" "1.prems" True
      by (subst set_loop.simps)
         (auto simp: keys dr turn stored call_store_conversation_def)
  qed
qed

text \<open>
  With tracking on, a non-empty content that matches a keyword, and a first store call that
  returns, \<^verbatim>\<open>_on_message\<close> buffers the message and makes the two store calls.
\<close>

lemma on_message_escalates:
  assumes "track_escalations self" and "content \<noteq> []"
    and "list_ex (\<lambda>kw. sublist kw (lower content)) escalation_keywords"
    and "memphora_store_agent_memory M (ag_calls self) sender content
           [(''receiver'', PStr receiver), (''session_id'', PStr (ag_session_id self)),
            (''type'', PStr ''message'')] = Inr ()"
  shows "snd (on_message M self content sender receiver) =
           self\<lparr>message_buffer := message_buffer self
                  @ [[(''content'', content), (''sender'', sender), (''receiver'', receiver)]],
                ag_calls := ag_calls self
                  @ [StoreAgentMemory sender content
                       [(''receiver'', PStr receiver), (''session_id'', PStr (ag_session_id self)),
                        (''type'', PStr ''message'')],
                     StoreAgentMemory sender (''ESCALATION: '' @ content)
                       [(''type'', PStr ''escalation''), (''session_id'', PStr (ag_session_id self)),
                        (''from_agent'', PStr sender), (''to_agent'', PStr receiver)]]\<rparr>"
  using assms
  by (simp add: on_message_def call_store_agent_memory_def Let_def split: sum.splits prod.splits)

text \<open>The lines of \<^verbatim>\<open>get_context\<close> are the renderings of the facts.\<close>

lemma str_items_context_lines:
  "\<forall>f\<in>set facts. text_is_string f \<Longrightarrow>
   str_items (map (context_line str_of) facts) = Inr (map (fact_text str_of) facts)"
proof (induction facts)
  case Nil
  then show ?case by simp
next
  case (Cons f facts)
  then have rest: "str_items (map (context_line str_of) facts) = Inr (map (fact_text str_of) facts)"
    by simp
  from Cons.prems have "text_is_string f" by simp
  then have "context_line str_of f = PStr (fact_text str_of f)"
    by (cases f) (auto split: option.splits pyval.splits)
  with rest show ?case by simp
qed

lemma format_facts:
  assumes "\<forall>f\<in>set facts. text_is_string f"
  shows "(if facts = [] then (Inr [], s)
          else (case str_items (map (context_line str_of) facts) of
                  Inl e \<Rightarrow> (Inl e, s)
                | Inr context_lines \<Rightarrow> (Inr (join newline context_lines), s))) =
         (Inr (join newline (map (fact_text str_of) facts)), s)"
  using str_items_context_lines [OF assms, of str_of] by simp

text \<open>\<^verbatim>\<open>for_agent\<close> on a known and on a new identifier, and what later calls keep.\<close>

lemma for_agent_known:
  "agent_memories self a = Some r \<Longrightarrow> for_agent self a = (Inr r, self)"
  by (simp add: for_agent_def)

lemma for_agent_new:
  "agent_memories self a = None \<Longrightarrow>
   for_agent self a =
     (Inr (length (handles self)),
      self\<lparr>handles := handles self @ [\<lparr>am_agent_id = a, am_crew_id = crew_id self\<rparr>],
           agent_memories := (agent_memories self)(a \<mapsto> length (handles self))\<rparr>)"
  by (simp add: for_agent_def)

lemma for_agent_keeps_entry:
  "agent_memories self a = Some r \<Longrightarrow> agent_memories (snd (for_agent self b)) a = Some r"
  by (cases "agent_memories self b") (auto simp: for_agent_new for_agent_known)

lemma for_agent_keeps_object:
  "r < length (handles self) \<Longrightarrow>
   r < length (handles (snd (for_agent self b))) \<and>
   handles (snd (for_agent self b)) ! r = handles self ! r"
  by (cases "agent_memories self b") (auto simp: for_agent_new for_agent_known nth_append)

lemma for_agents_keeps_entry:
  "agent_memories self a = Some r \<Longrightarrow> agent_memories (for_agents self others) a = Some r"
  by (induction others arbitrary: self) (auto simp: for_agent_keeps_entry)

lemma for_agents_keeps_object:
  "r < length (handles self) \<Longrightarrow> handles (for_agents self others) ! r = handles self ! r"
proof (induction others arbitrary: self)
  case Nil
  then show ?case by simp
next
  case (Cons b others)
  from for_agent_keeps_object [OF Cons.prems, of b] Cons.IH [of "snd (for_agent self b)"]
  show ?case by simp
qed

section \<open>Verified properties\<close>

subsection \<open>LangChain: save and load\<close>

text \<open>
  C1. For every inputs and outputs dictionary, \<^verbatim>\<open>save_context\<close> calls the client's
  conversation store exactly once, with the two values, when the value under the input key
  and the value under the output key are both present and non-empty; otherwise it makes no
  call and returns with the object unchanged.
\<close>

theorem save_context_once_or_noop:
  "(present_nonempty inputs (input_key self) \<and> present_nonempty outputs (output_key self) \<longrightarrow>
      (\<exists>human ai. inputs (input_key self) = Some human \<and> outputs (output_key self) = Some ai \<and>
         save_context M self inputs outputs =
           (memphora_store_conversation M (lc_calls self) human ai,
            self\<lparr>lc_calls := lc_calls self @ [StoreConversation human ai]\<rparr>)))
   \<and> (\<not> (present_nonempty inputs (input_key self) \<and> present_nonempty outputs (output_key self)) \<longrightarrow>
        save_context M self inputs outputs = (Inr (), self))"
  by (auto simp: save_context_def present_nonempty_def dict_get_def call_store_conversation_def
      split: option.splits)

theorem save_context_once_or_noop_witness:
  "lc_calls (snd (save_context (answering [] Map.empty) (langchain_init ''u1'' None True)
      [''input'' \<mapsto> PStr ''hi''] [''output'' \<mapsto> PStr ''hello''])) =
     [StoreConversation (PStr ''hi'') (PStr ''hello'')]
   \<and> save_context (answering [] Map.empty) (langchain_init ''u1'' None True)
      [''input'' \<mapsto> PStr ''hi''] [''output'' \<mapsto> PStr []] =
     (Inr (), langchain_init ''u1'' None True)"
proof -
  let ?self = "langchain_init ''u1'' None True"
  let ?i = "[''input'' \<mapsto> PStr ''hi''] :: string \<rightharpoonup> pyval"
  let ?o = "[''output'' \<mapsto> PStr ''hello''] :: string \<rightharpoonup> pyval"
  let ?e = "[''output'' \<mapsto> PStr []] :: string \<rightharpoonup> pyval"
  have keys: "input_key ?self = ''input''" "output_key ?self = ''output''" "lc_calls ?self = []"
    by (simp_all add: langchain_init_def)
  have both: "present_nonempty ?i (input_key ?self) \<and> present_nonempty ?o (output_key ?self)"
    by (simp add: keys present_nonempty_def)
  have half: "\<not> (present_nonempty ?i (input_key ?self) \<and> present_nonempty ?e (output_key ?self))"
    by (simp add: keys present_nonempty_def)
  from save_context_once_or_noop [of ?i ?self ?o "answering [] Map.empty"] both
  obtain human ai where "?i (input_key ?self) = Some human" "?o (output_key ?self) = Some ai"
    and "save_context (answering [] Map.empty) ?self ?i ?o =
           (memphora_store_conversation (answering [] Map.empty) (lc_calls ?self) human ai,
            ?self\<lparr>lc_calls := lc_calls ?self @ [StoreConversation human ai]\<rparr>)"
    by blast
  then have once: "lc_calls (snd (save_context (answering [] Map.empty) ?self ?i ?o)) =
      [StoreConversation (PStr ''hi'') (PStr ''hello'')]"
    by (simp add: keys)
  from save_context_once_or_noop [of ?i ?self ?e "answering [] Map.empty"] half
  have "save_context (answering [] Map.empty) ?self ?i ?e = (Inr (), ?self)"
    by blast
  with once show ?thesis by simp
qed

text \<open>
  C2, as stated: for a non-empty query, \<^verbatim>\<open>load_memory_variables\<close> in messages mode
  returns a list of exactly one system message. It does not when the client answers the
  query with the empty string: the list returned is then empty.
\<close>

theorem load_one_message_counterexample:
  "memphora_get_context (answering [] Map.empty) [] (PStr ''tea?'') 10 = Inr []
   \<and> fst (load_memory_variables (answering [] Map.empty) (langchain_init ''u1'' None True)
           [''input'' \<mapsto> PStr ''tea?'']) =
     Inr [''history'' \<mapsto> PList []]"
  by (simp add: load_memory_variables_def dict_get_def call_get_context_def
      format_as_messages_def answering_def langchain_init_def)

text \<open>
  C2, amended. When the value under the input key passes the truth test and the client's
  answer to the context query returns, \<^verbatim>\<open>load_memory_variables\<close> makes the one call
  \<^verbatim>\<open>get_context(query, limit=10)\<close> and returns, under the memory key: in messages mode the
  list of one system message whose content is \<^verbatim>\<open>"Relevant context:\n"\<close> followed by the
  context when the context is not empty, and the empty list when it is; in string mode the
  context itself.
\<close>

theorem load_with_query:
  assumes "inputs (input_key self) = Some query" and "truthy query"
    and "memphora_get_context M (lc_calls self) query 10 = Inr context"
  shows "load_memory_variables M self inputs =
           (Inr [memory_key self \<mapsto>
                  (if return_messages self then
                     PList (if context = [] then []
                            else [PDict [(''role'', PStr ''system''),
                                         (''content'', PStr (''Relevant context:'' @ newline @ context))]])
                   else PStr context)],
            self\<lparr>lc_calls := lc_calls self @ [GetContext query 10]\<rparr>)"
  using assms
  by (simp add: load_memory_variables_def dict_get_def call_get_context_def format_as_messages_def)

theorem load_with_query_witness:
  "load_memory_variables (answering ''likes tea'' Map.empty) (langchain_init ''u1'' None True)
     [''input'' \<mapsto> PStr ''tea?''] =
   (Inr [''history'' \<mapsto>
          PList [PDict [(''role'', PStr ''system''),
                        (''content'', PStr (''Relevant context:'' @ newline @ ''likes tea''))]]],
    (langchain_init ''u1'' None True)\<lparr>lc_calls := [GetContext (PStr ''tea?'') 10]\<rparr>)"
proof -
  let ?self = "langchain_init ''u1'' None True"
  have q: "[''input'' \<mapsto> PStr ''tea?''] (input_key ?self) = Some (PStr ''tea?'')"
    by (simp add: langchain_init_def)
  have t: "truthy (PStr ''tea?'')" by simp
  have c: "memphora_get_context (answering ''likes tea'' Map.empty) (lc_calls ?self) (PStr ''tea?'') 10
      = Inr ''likes tea''"
    by (simp add: answering_def)
  from load_with_query [of "[''input'' \<mapsto> PStr ''tea?'']" "?self" "PStr ''tea?''"
      "answering ''likes tea'' Map.empty" "''likes tea''"] q t c
  show ?thesis by (simp add: langchain_init_def)
qed

text \<open>
  C5. When the input key is absent from the inputs, or maps to the empty string,
  \<^verbatim>\<open>load_memory_variables\<close> returns the memory key mapped to the empty list in messages
  mode and to the empty string in string mode, and the object is unchanged: no call was made.
\<close>

theorem load_empty_query:
  assumes "inputs (input_key self) = None \<or> inputs (input_key self) = Some (PStr [])"
  shows "load_memory_variables M self inputs =
           (Inr [memory_key self \<mapsto> (if return_messages self then PList [] else PStr [])], self)"
  using assms by (auto simp: load_memory_variables_def dict_get_def)

theorem load_empty_query_witness:
  "load_memory_variables (answering ''likes tea'' Map.empty) (langchain_init ''u1'' None True)
     Map.empty =
   (Inr [''history'' \<mapsto> PList []], langchain_init ''u1'' None True)
   \<and> load_memory_variables (answering ''likes tea'' Map.empty) (langchain_init ''u1'' None False)
     [''input'' \<mapsto> PStr []] =
   (Inr [''history'' \<mapsto> PStr []], langchain_init ''u1'' None False)"
proof -
  have a: "Map.empty (input_key (langchain_init ''u1'' None True)) = None
      \<or> Map.empty (input_key (langchain_init ''u1'' None True)) = Some (PStr [])"
    by simp
  have b: "[''input'' \<mapsto> PStr []] (input_key (langchain_init ''u1'' None False)) = None
      \<or> [''input'' \<mapsto> PStr []] (input_key (langchain_init ''u1'' None False)) = Some (PStr [])"
    by (simp add: langchain_init_def)
  from load_empty_query [where inputs = Map.empty and self = "langchain_init ''u1'' None True"
      and M = "answering ''likes tea'' Map.empty"] a
    load_empty_query [where inputs = "[''input'' \<mapsto> PStr []]"
      and self = "langchain_init ''u1'' None False" and M = "answering ''likes tea'' Map.empty"] b
  show ?thesis by (simp add: langchain_init_def)
qed

subsection \<open>LlamaIndex: put and set\<close>

text \<open>
  C3. For every sequence of messages (each with a role and a content; store calls return),
  \<^verbatim>\<open>set\<close> replaces the chat buffer by the sequence and stores exactly the adjacent pairs
  at positions \<open>(2i, 2i+1)\<close> whose roles are user then assistant, in order; every other
  pair is skipped. The example of the three messages hi, hey, bye is the instance below:
  one pair stored, the trailing user message not.
\<close>

theorem set_stores_turns:
  assumes "\<forall>m\<in>set messages. map_of m ''role'' \<noteq> None \<and> map_of m ''content'' \<noteq> None"
    and "\<forall>h human ai. memphora_store_conversation M h human ai = Inr ()"
  shows "set_messages M self messages =
           (Inr (),
            self\<lparr>chat_history := messages,
                 li_calls := li_calls self
                   @ map stored_turn (filter is_turn (adjacent_pairs messages))\<rparr>)"
  using set_loop_stores [OF assms, of 0 "li_calls self"] by (simp add: set_messages_def)

theorem set_stores_turns_witness:
  "set_messages (answering [] Map.empty) llamaindex_init
     [[(''role'', ''user''), (''content'', ''hi'')],
      [(''role'', ''assistant''), (''content'', ''hey'')],
      [(''role'', ''user''), (''content'', ''bye'')]] =
   (Inr (),
    \<lparr>li_calls = [StoreConversation (PStr ''hi'') (PStr ''hey'')], token_limit = 3000,
     chat_history =
       [[(''role'', ''user''), (''content'', ''hi'')],
        [(''role'', ''assistant''), (''content'', ''hey'')],
        [(''role'', ''user''), (''content'', ''bye'')]]\<rparr>)"
proof -
  let ?ms = "[[(''role'', ''user''), (''content'', ''hi'')],
      [(''role'', ''assistant''), (''content'', ''hey'')],
      [(''role'', ''user''), (''content'', ''bye'')]] :: message list"
  have wf: "\<forall>m\<in>set ?ms. map_of m ''role'' \<noteq> None \<and> map_of m ''content'' \<noteq> None" by simp
  have ok: "\<forall>h human ai. memphora_store_conversation (answering [] Map.empty) h human ai = Inr ()"
    by (simp add: answering_def)
  show ?thesis
    using set_stores_turns [OF wf ok, of llamaindex_init]
    by (simp add: llamaindex_init_def is_turn_def stored_turn_def role_of_def content_of_def
        dict_get_def)
qed

text \<open>
  C9. For every pair of strings, empty or not, \<^verbatim>\<open>put\<close> calls the client's conversation
  store exactly once with the pair, and, the call having returned, appends a user entry then
  an assistant entry to the chat buffer. There is no emptiness test.
\<close>

theorem put_no_emptiness_check:
  "li_calls (snd (put M self user_message assistant_message)) =
     li_calls self @ [StoreConversation (PStr user_message) (PStr assistant_message)]
   \<and> (memphora_store_conversation M (li_calls self) (PStr user_message) (PStr assistant_message)
        = Inr () \<longrightarrow>
        put M self user_message assistant_message =
          (Inr (),
           self\<lparr>li_calls := li_calls self
                  @ [StoreConversation (PStr user_message) (PStr assistant_message)],
                chat_history := chat_history self
                  @ [[(''role'', ''user''), (''content'', user_message)],
                     [(''role'', ''assistant''), (''content'', assistant_message)]]\<rparr>))"
  by (auto simp: put_def call_store_conversation_def split: sum.splits)

theorem put_no_emptiness_check_witness:
  "put (answering [] Map.empty) llamaindex_init [] [] =
     (Inr (),
      \<lparr>li_calls = [StoreConversation (PStr []) (PStr [])], token_limit = 3000,
       chat_history = [[(''role'', ''user''), (''content'', [])],
                       [(''role'', ''assistant''), (''content'', [])]]\<rparr>)"
proof -
  have ok: "memphora_store_conversation (answering [] Map.empty) (li_calls llamaindex_init)
      (PStr []) (PStr []) = Inr ()"
    by (simp add: answering_def)
  from put_no_emptiness_check [of "answering [] Map.empty" llamaindex_init "[]" "[]"] ok
  have "put (answering [] Map.empty) llamaindex_init [] [] =
          (Inr (),
           llamaindex_init\<lparr>li_calls := li_calls llamaindex_init
                  @ [StoreConversation (PStr []) (PStr [])],
                chat_history := chat_history llamaindex_init
                  @ [[(''role'', ''user''), (''content'', [])],
                     [(''role'', ''assistant''), (''content'', [])]]\<rparr>)"
    by blast
  then show ?thesis by (simp add: llamaindex_init_def)
qed

subsection \<open>CrewAI: one handle per agent\<close>

text \<open>
  C8. For every agent identifier, \<^verbatim>\<open>for_agent\<close> returns a handle, and every later call
  with that identifier, after any number of calls with any identifiers, returns the same
  handle and changes nothing. When the identifier was not known before the first call, the
  handle is a new object, constructed with that agent identifier and the crew identifier,
  and it stays that object.
\<close>

theorem for_agent_same_handle:
  "\<exists>h. fst (for_agent self a) = Inr h \<and>
     (\<forall>others. for_agent (for_agents (snd (for_agent self a)) others) a =
        (Inr h, for_agents (snd (for_agent self a)) others)) \<and>
     (agent_memories self a = None \<longrightarrow>
        h = length (handles self) \<and>
        (\<forall>others. handles (for_agents (snd (for_agent self a)) others) ! h =
           \<lparr>am_agent_id = a, am_crew_id = crew_id self\<rparr>))"
proof (cases "agent_memories self a")
  case None
  let ?h = "length (handles self)"
  let ?s = "snd (for_agent self a)"
  have entry: "agent_memories ?s a = Some ?h" and len: "?h < length (handles ?s)"
    and obj: "handles ?s ! ?h = \<lparr>am_agent_id = a, am_crew_id = crew_id self\<rparr>"
    using None by (simp_all add: for_agent_new)
  have "fst (for_agent self a) = Inr ?h" using None by (simp add: for_agent_new)
  moreover have "\<forall>others. for_agent (for_agents ?s others) a = (Inr ?h, for_agents ?s others)"
    using for_agents_keeps_entry [OF entry] by (simp add: for_agent_known)
  moreover have "\<forall>others. handles (for_agents ?s others) ! ?h =
      \<lparr>am_agent_id = a, am_crew_id = crew_id self\<rparr>"
    using for_agents_keeps_object [OF len] obj by simp
  ultimately show ?thesis by blast
next
  case (Some r)
  let ?s = "snd (for_agent self a)"
  have entry: "agent_memories ?s a = Some r" using Some by (simp add: for_agent_known)
  have "fst (for_agent self a) = Inr r" using Some by (simp add: for_agent_known)
  moreover have "\<forall>others. for_agent (for_agents ?s others) a = (Inr r, for_agents ?s others)"
    using for_agents_keeps_entry [OF entry] by (simp add: for_agent_known)
  ultimately show ?thesis using Some by simp
qed

theorem for_agent_same_handle_witness:
  "fst (for_agent (crewai_init ''crew'') ''a'') = Inr 0 \<and>
   fst (for_agent (snd (for_agent (crewai_init ''crew'') ''a'')) ''a'') = Inr 0 \<and>
   fst (for_agent (for_agents (snd (for_agent (crewai_init ''crew'') ''a'')) [''b'', ''a'']) ''a'')
     = Inr 0 \<and>
   handles (for_agents (snd (for_agent (crewai_init ''crew'') ''a'')) [''b'', ''a'']) ! 0 =
     \<lparr>am_agent_id = ''a'', am_crew_id = ''crew''\<rparr>"
proof -
  let ?s = "snd (for_agent (crewai_init ''crew'') ''a'')"
  have first: "agent_memories (crewai_init ''crew'') ''a'' = None" by (simp add: crewai_init_def)
  from for_agent_same_handle [of "crewai_init ''crew''" "''a''"] first
  obtain h where h: "fst (for_agent (crewai_init ''crew'') ''a'') = Inr h"
    and again: "\<forall>others. for_agent (for_agents ?s others) ''a'' = (Inr h, for_agents ?s others)"
    and fresh: "h = length (handles (crewai_init ''crew''))"
    and obj: "\<forall>others. handles (for_agents ?s others) ! h =
           \<lparr>am_agent_id = ''a'', am_crew_id = crew_id (crewai_init ''crew'')\<rparr>"
    by blast
  from fresh have h0: "h = 0" by (simp add: crewai_init_def)
  have c: "crew_id (crewai_init ''crew'') = ''crew''" by (simp add: crewai_init_def)
  from again [rule_format, of "[]"] again [rule_format, of "[''b'', ''a'']"]
    obj [rule_format, of "[''b'', ''a'']"] h h0 c
  show ?thesis by simp
qed

subsection \<open>AutoGen: message hook and context\<close>

text \<open>
  C4. When escalation tracking is on, a message whose content is not empty and whose
  lowercased content contains one of the keywords escalate, human, supervisor, help needed
  produces exactly two store calls (the first having returned): one with the content as it
  is and the metadata type \<^verbatim>\<open>"message"\<close>, then one with the content prefixed by
  \<^verbatim>\<open>"ESCALATION: "\<close> and the metadata type \<^verbatim>\<open>"escalation"\<close>, session, sender and
  receiver.
\<close>

theorem on_message_two_records:
  assumes "track_escalations self" and "content \<noteq> []"
    and "\<exists>kw\<in>set escalation_keywords. sublist kw (lower content)"
    and "memphora_store_agent_memory M (ag_calls self) sender content
           [(''receiver'', PStr receiver), (''session_id'', PStr (ag_session_id self)),
            (''type'', PStr ''message'')] = Inr ()"
  shows "ag_calls (snd (on_message M self content sender receiver)) =
           ag_calls self
             @ [StoreAgentMemory sender content
                  [(''receiver'', PStr receiver), (''session_id'', PStr (ag_session_id self)),
                   (''type'', PStr ''message'')],
                StoreAgentMemory sender (''ESCALATION: '' @ content)
                  [(''type'', PStr ''escalation''), (''session_id'', PStr (ag_session_id self)),
                   (''from_agent'', PStr sender), (''to_agent'', PStr receiver)]]"
proof -
  from assms(3) have "list_ex (\<lambda>kw. sublist kw (lower content)) escalation_keywords"
    by (simp add: list_ex_iff)
  from on_message_escalates [OF assms(1,2) this assms(4)] show ?thesis by simp
qed

theorem on_message_two_records_witness:
  "ag_calls (snd (on_message (answering [] Map.empty) (autogen_init ''s1'' True)
      ''Please ESCALATE now'' ''alice'' ''bob'')) =
   [StoreAgentMemory ''alice'' ''Please ESCALATE now''
      [(''receiver'', PStr ''bob''), (''session_id'', PStr ''s1''), (''type'', PStr ''message'')],
    StoreAgentMemory ''alice'' ''ESCALATION: Please ESCALATE now''
      [(''type'', PStr ''escalation''), (''session_id'', PStr ''s1''),
       (''from_agent'', PStr ''alice''), (''to_agent'', PStr ''bob'')]]"
proof -
  have t: "track_escalations (autogen_init ''s1'' True)" by (simp add: autogen_init_def)
  have n: "''Please ESCALATE now'' \<noteq> []" by simp
  have "sublist ''escalate'' (lower ''Please ESCALATE now'')" by code_simp
  then have k: "\<exists>kw\<in>set escalation_keywords. sublist kw (lower ''Please ESCALATE now'')"
    by (simp add: escalation_keywords_def)
  have s: "memphora_store_agent_memory (answering [] Map.empty)
       (ag_calls (autogen_init ''s1'' True)) ''alice'' ''Please ESCALATE now''
       [(''receiver'', PStr ''bob''),
        (''session_id'', PStr (ag_session_id (autogen_init ''s1'' True))),
        (''type'', PStr ''message'')] = Inr ()"
    by (simp add: answering_def)
  show ?thesis using on_message_two_records [OF t n k s] by (simp add: autogen_init_def)
qed

text \<open>
  C6. \<^verbatim>\<open>get_context\<close> searches the memories of the agent when an agent identifier is given
  (and is not the empty string) and the whole session otherwise; the search having returned,
  it takes the list under \<^verbatim>\<open>"facts"\<close> (none: the empty list), renders each fact as its
  \<^verbatim>\<open>"text"\<close> field when the fact is a mapping (with a text that is a string, or no text:
  the empty string) and as its string form otherwise, and joins the renderings with
  newlines. The empty list of facts gives the empty string.
\<close>

theorem get_context_joins_facts:
  "(agent_id = Some a \<and> a \<noteq> [] \<and>
      memphora_search_agent_memories M (ag_calls self) a query limit = Inr result \<and>
      (\<forall>f\<in>set (dict_get result ''facts'' []). text_is_string f) \<longrightarrow>
        get_context str_of M self query agent_id limit =
          (Inr (join newline (map (fact_text str_of) (dict_get result ''facts'' []))),
           self\<lparr>ag_calls := ag_calls self @ [SearchAgentMemories a query limit]\<rparr>))
   \<and> ((agent_id = None \<or> agent_id = Some []) \<and>
      memphora_search M (ag_calls self) query limit = Inr result \<and>
      (\<forall>f\<in>set (dict_get result ''facts'' []). text_is_string f) \<longrightarrow>
        get_context str_of M self query agent_id limit =
          (Inr (join newline (map (fact_text str_of) (dict_get result ''facts'' []))),
           self\<lparr>ag_calls := ag_calls self @ [Search query limit]\<rparr>))
   \<and> join newline (map (fact_text str_of) []) = []"
proof (intro conjI impI)
  assume h: "agent_id = Some a \<and> a \<noteq> [] \<and>
      memphora_search_agent_memories M (ag_calls self) a query limit = Inr result \<and>
      (\<forall>f\<in>set (dict_get result ''facts'' []). text_is_string f)"
  then have wf: "\<forall>f\<in>set (dict_get result ''facts'' []). text_is_string f" by simp
  from h show "get_context str_of M self query agent_id limit =
          (Inr (join newline (map (fact_text str_of) (dict_get result ''facts'' []))),
           self\<lparr>ag_calls := ag_calls self @ [SearchAgentMemories a query limit]\<rparr>)"
    by (simp add: get_context_def call_search_agent_memories_def Let_def format_facts [OF wf])
next
  assume h: "(agent_id = None \<or> agent_id = Some []) \<and>
      memphora_search M (ag_calls self) query limit = Inr result \<and>
      (\<forall>f\<in>set (dict_get result ''facts'' []). text_is_string f)"
  then have wf: "\<forall>f\<in>set (dict_get result ''facts'' []). text_is_string f" by simp
  from h show "get_context str_of M self query agent_id limit =
          (Inr (join newline (map (fact_text str_of) (dict_get result ''facts'' []))),
           self\<lparr>ag_calls := ag_calls self @ [Search query limit]\<rparr>)"
    by (auto simp: get_context_def call_search_def Let_def format_facts [OF wf])
next
  show "join newline (map (fact_text str_of) []) = []" by simp
qed

theorem get_context_joins_facts_witness:
  "get_context (\<lambda>v. ''7'')
      (answering []
         [''facts'' \<mapsto> [PDict [(''text'', PStr ''likes tea'')], PStr ''born 1990'', PInt 7]])
      (autogen_init ''s1'' True) ''tea'' (Some ''alice'') 10 =
     (Inr (''likes tea'' @ newline @ ''born 1990'' @ newline @ ''7''),
      \<lparr>ag_calls = [SearchAgentMemories ''alice'' ''tea'' 10], ag_session_id = ''s1'',
       track_escalations = True, message_buffer = []\<rparr>)
   \<and> get_context (\<lambda>v. ''7'') (answering [] [''facts'' \<mapsto> []])
      (autogen_init ''s1'' True) ''tea'' None 10 =
     (Inr [],
      \<lparr>ag_calls = [Search ''tea'' 10], ag_session_id = ''s1'',
       track_escalations = True, message_buffer = []\<rparr>)"
proof -
  let ?r = "[''facts'' \<mapsto> [PDict [(''text'', PStr ''likes tea'')], PStr ''born 1990'', PInt 7]]
    :: search_result"
  let ?e = "[''facts'' \<mapsto> []] :: search_result"
  let ?self = "autogen_init ''s1'' True"
  have 1: "Some ''alice'' = Some ''alice'' \<and> ''alice'' \<noteq> [] \<and>
      memphora_search_agent_memories (answering [] ?r) (ag_calls ?self) ''alice'' ''tea'' 10
        = Inr ?r \<and>
      (\<forall>f\<in>set (dict_get ?r ''facts'' []). text_is_string f)"
    by (simp add: answering_def dict_get_def)
  have 2: "((None :: string option) = None \<or> None = Some []) \<and>
      memphora_search (answering [] ?e) (ag_calls ?self) ''tea'' 10 = Inr ?e \<and>
      (\<forall>f\<in>set (dict_get ?e ''facts'' []). text_is_string f)"
    by (simp add: answering_def dict_get_def)
  from get_context_joins_facts [of "Some ''alice''" "''alice''" "answering [] ?r" ?self
      "''tea''" 10 ?r "\<lambda>v. ''7''"] 1
  have a: "get_context (\<lambda>v. ''7'') (answering [] ?r) ?self ''tea'' (Some ''alice'') 10 =
          (Inr (join newline (map (fact_text (\<lambda>v. ''7'')) (dict_get ?r ''facts'' []))),
           ?self\<lparr>ag_calls := ag_calls ?self @ [SearchAgentMemories ''alice'' ''tea'' 10]\<rparr>)"
    by blast
  from get_context_joins_facts [of None "[]" "answering [] ?e" ?self "''tea''" 10 ?e
      "\<lambda>v. ''7''"] 2
  have b: "get_context (\<lambda>v. ''7'') (answering [] ?e) ?self ''tea'' None 10 =
          (Inr (join newline (map (fact_text (\<lambda>v. ''7'')) (dict_get ?e ''facts'' []))),
           ?self\<lparr>ag_calls := ag_calls ?self @ [Search ''tea'' 10]\<rparr>)"
    by blast
  show ?thesis using a b by (simp add: dict_get_def autogen_init_def)
qed

text \<open>
  C7. A message whose content is empty changes nothing: \<^verbatim>\<open>_on_message\<close> returns with the
  object as it was, so nothing is appended to the message buffer and no call is made to the
  client.
\<close>

theorem on_message_empty: "on_message M self [] sender receiver = (Inr (), self)"
  by (simp add: on_message_def)

theorem on_message_empty_witness:
  "on_message (answering [] Map.empty) (autogen_init ''s1'' True) [] ''alice'' ''bob'' =
     (Inr (), \<lparr>ag_calls = [], ag_session_id = ''s1'', track_escalations = True,
               message_buffer = []\<rparr>)"
  using on_message_empty [of "answering [] Map.empty" "autogen_init ''s1'' True" "''alice''" "''bob''"]
  by (simp add: autogen_init_def)

text \<open>
  C10, as stated: every non-empty message whose lowercased content contains a keyword as a
  substring has an escalation record stored. It has none when escalation tracking is off:
  \<open>humanity\<close> contains \<open>human\<close>, and the only call made is the store of the message.
\<close>

theorem substring_without_tracking_counterexample:
  "sublist ''human'' (lower ''humanity'') \<and>
   ag_calls (snd (on_message (answering [] Map.empty) (autogen_init ''s1'' False)
      ''humanity'' ''alice'' ''bob'')) =
   [StoreAgentMemory ''alice'' ''humanity''
      [(''receiver'', PStr ''bob''), (''session_id'', PStr ''s1''), (''type'', PStr ''message'')]]"
proof -
  have "sublist ''human'' (lower ''humanity'')" by code_simp
  then show ?thesis
    by (simp add: on_message_def call_store_agent_memory_def answering_def autogen_init_def)
qed

text \<open>
  C10, amended. When escalation tracking is on, every non-empty message whose lowercased
  content is some text, then a keyword, then some text (no test of word boundaries: the
  texts around the keyword are arbitrary) has the escalation record stored as the last call,
  the store of the message having returned.
\<close>

theorem substring_match_escalates:
  assumes "track_escalations self" and "content \<noteq> []"
    and "kw \<in> set escalation_keywords" and "lower content = before @ kw @ after"
    and "memphora_store_agent_memory M (ag_calls self) sender content
           [(''receiver'', PStr receiver), (''session_id'', PStr (ag_session_id self)),
            (''type'', PStr ''message'')] = Inr ()"
  shows "last (ag_calls (snd (on_message M self content sender receiver))) =
           StoreAgentMemory sender (''ESCALATION: '' @ content)
             [(''type'', PStr ''escalation''), (''session_id'', PStr (ag_session_id self)),
              (''from_agent'', PStr sender), (''to_agent'', PStr receiver)]"
proof -
  from assms(4) have "sublist kw (lower content)" by (auto simp: sublist_def)
  with assms(3) have "list_ex (\<lambda>kw. sublist kw (lower content)) escalation_keywords"
    by (auto simp: list_ex_iff)
  from on_message_escalates [OF assms(1,2) this assms(5)] show ?thesis by simp
qed

theorem substring_match_escalates_witness:
  "last (ag_calls (snd (on_message (answering [] Map.empty) (autogen_init ''s1'' True)
      ''Humanity'' ''alice'' ''bob''))) =
   StoreAgentMemory ''alice'' ''ESCALATION: Humanity''
     [(''type'', PStr ''escalation''), (''session_id'', PStr ''s1''),
      (''from_agent'', PStr ''alice''), (''to_agent'', PStr ''bob'')]"
proof -
  have t: "track_escalations (autogen_init ''s1'' True)" by (simp add: autogen_init_def)
  have n: "''Humanity'' \<noteq> []" by simp
  have k: "''human'' \<in> set escalation_keywords" by (simp add: escalation_keywords_def)
  have l: "lower ''Humanity'' = [] @ ''human'' @ ''ity''" by code_simp
  have s: "memphora_store_agent_memory (answering [] Map.empty)
       (ag_calls (autogen_init ''s1'' True)) ''alice'' ''Humanity''
       [(''receiver'', PStr ''bob''),
        (''session_id'', PStr (ag_session_id (autogen_init ''s1'' True))),
        (''type'', PStr ''message'')] = Inr ()"
    by (simp add: answering_def)
  show ?thesis using substring_match_escalates [OF t n k l s] by (simp add: autogen_init_def)
qed

end
